theory Spec2Isabelle
  imports Complex_Main "HOL-Library.Sublist" "HOL-Library.AList"
begin

section \<open>Data model: cells, rows and data frames\<close>

text \<open>
  The script \<^verbatim>\<open>us_accidents_analysis.py\<close> threads one pandas DataFrame \<^verbatim>\<open>df\<close>
  through a sequence of column and row operations.  A frame is modelled as its ordered
  column labels together with its rows in positional order; a row is an association list
  from column label to cell.  The pandas index is not modelled: the script only ever uses
  the default positional index, so aligning two selections of the same frame by index
  label is the same as aligning them by row.

  A cell is either missing (\<^verbatim>\<open>NaN\<close>, \<^verbatim>\<open>None\<close> and \<^verbatim>\<open>NaT\<close> alike, which
  \<^verbatim>\<open>isnull\<close> does not distinguish), a number, a string, a boolean or a timestamp.
  Numbers (int64 and float64 alike) are identified with the rational they denote.
\<close>

record timestamp =
  year :: int
  month :: int
  day :: int
  hour :: int
  minute :: int

datatype cell = NA | Num rat | Str string | Flag bool | Time timestamp

datatype error = KeyError string | TypeError | AttributeError | IndexError

type_synonym row = "(string \<times> cell) list"

record dataframe =
  columns :: "string list"
  rows :: "row list"

text \<open>Reading a cell of a row; a label the row does not carry reads as missing.\<close>

definition cell :: "row \<Rightarrow> string \<Rightarrow> cell" where
  "cell r c = (case map_of r c of Some v \<Rightarrow> v | None \<Rightarrow> NA)"

definition isnull :: "cell \<Rightarrow> bool" where
  "isnull v = (v = NA)"

text \<open>Sequencing of steps that may raise.\<close>

definition ebind :: "error + 'a \<Rightarrow> ('a \<Rightarrow> error + 'b) \<Rightarrow> error + 'b" where
  "ebind m f = (case m of Inl e \<Rightarrow> Inl e | Inr x \<Rightarrow> f x)"

text \<open>\<^verbatim>\<open>df[c]\<close> raises \<^verbatim>\<open>KeyError\<close> for a label that is not a column: \<open>require\<close>
  checks the labels a statement reads, in the order it reads them.\<close>

definition require :: "string list \<Rightarrow> dataframe \<Rightarrow> error + dataframe" where
  "require cs df =
     (case filter (\<lambda>c. c \<notin> set (columns df)) cs of
        [] \<Rightarrow> Inr df
      | c # _ \<Rightarrow> Inl (KeyError c))"

text \<open>\<^verbatim>\<open>df[c] = values\<close>: replaces the column in place, or appends a new one.\<close>

definition set_col :: "string \<Rightarrow> (row \<Rightarrow> cell) \<Rightarrow> dataframe \<Rightarrow> dataframe" where
  "set_col c f df =
     \<lparr>columns = (if c \<in> set (columns df) then columns df else columns df @ [c]),
      rows = map (\<lambda>r. AList.update c (f r) r) (rows df)\<rparr>"

text \<open>\<^verbatim>\<open>df.loc[mask, c] = values\<close>: assigns only in the rows the mask selects.\<close>

definition loc_set :: "(row \<Rightarrow> bool) \<Rightarrow> string \<Rightarrow> (row \<Rightarrow> cell) \<Rightarrow> dataframe \<Rightarrow> dataframe" where
  "loc_set sel c f df =
     \<lparr>columns = (if c \<in> set (columns df) then columns df else columns df @ [c]),
      rows = map (\<lambda>r. if sel r then AList.update c (f r) r else r) (rows df)\<rparr>"

text \<open>\<^verbatim>\<open>df.drop(cs, axis=1)\<close>: raises \<^verbatim>\<open>KeyError\<close> when a label is not a column.\<close>

definition drop_row :: "string list \<Rightarrow> row \<Rightarrow> row" where
  "drop_row cs r = filter (\<lambda>kv. fst kv \<notin> set cs) r"

definition drop_cols :: "string list \<Rightarrow> dataframe \<Rightarrow> error + dataframe" where
  "drop_cols cs df =
     ebind (require cs df) (\<lambda>df.
       Inr \<lparr>columns = filter (\<lambda>c. c \<notin> set cs) (columns df),
            rows = map (drop_row cs) (rows df)\<rparr>)"

text \<open>\<^verbatim>\<open>df[mask]\<close>, \<^verbatim>\<open>df[:n]\<close> and \<^verbatim>\<open>pd.concat([a, b])\<close> (the union of the columns,
  the rows of \<open>a\<close> followed by those of \<open>b\<close>).\<close>

definition select_rows :: "(row \<Rightarrow> bool) \<Rightarrow> dataframe \<Rightarrow> dataframe" where
  "select_rows p df = \<lparr>columns = columns df, rows = filter p (rows df)\<rparr>"

definition head_rows :: "nat \<Rightarrow> dataframe \<Rightarrow> dataframe" where
  "head_rows n df = \<lparr>columns = columns df, rows = take n (rows df)\<rparr>"

definition concat_frames :: "dataframe \<Rightarrow> dataframe \<Rightarrow> dataframe" where
  "concat_frames a b =
     \<lparr>columns = columns a @ filter (\<lambda>c. c \<notin> set (columns a)) (columns b),
      rows = rows a @ rows b\<rparr>"

section \<open>Target binarizer and balancer (source lines 318 to 329)\<close>

text \<open>
  \<^verbatim>\<open>df['Severity4'] = 0\<close>
  \<^verbatim>\<open>df.loc[df['Severity'] == 4, 'Severity4'] = 1\<close>
  \<^verbatim>\<open>df = df.drop(['Severity'], axis = 1)\<close>
\<close>

definition binarize :: "dataframe \<Rightarrow> error + dataframe" where
  "binarize df =
     (let df1 = set_col ''Severity4'' (\<lambda>r. Num 0) df in
      ebind (require [''Severity''] df1) (\<lambda>df2.
        drop_cols [''Severity'']
          (loc_set (\<lambda>r. cell r ''Severity'' = Num 4) ''Severity4'' (\<lambda>r. Num 1) df2)))"

text \<open>
  \<^verbatim>\<open>df1 = df[df['Severity4']==0][:110000]\<close>
  \<^verbatim>\<open>df2 = df[df['Severity4']==1][:110000]\<close>
  \<^verbatim>\<open>df_bl = pd.concat([df1,df2])\<close>
\<close>

definition cap :: nat where
  "cap = 110000"

definition balance :: "dataframe \<Rightarrow> error + dataframe" where
  "balance df =
     ebind (require [''Severity4''] df) (\<lambda>df.
       (let df1 = head_rows cap (select_rows (\<lambda>r. cell r ''Severity4'' = Num 0) df);
            df2 = head_rows cap (select_rows (\<lambda>r. cell r ''Severity4'' = Num 1) df)
        in Inr (concat_frames df1 df2)))"

definition binarize_and_balance :: "dataframe \<Rightarrow> error + dataframe" where
  "binarize_and_balance df = ebind (binarize df) balance"

text \<open>Class counts: of the binary label in a frame that carries \<^verbatim>\<open>Severity4\<close>, and of
  the two classes in a frame that still carries \<^verbatim>\<open>Severity\<close> (class 1 is severity 4,
  class 0 is every other row).\<close>

definition count_label :: "rat \<Rightarrow> dataframe \<Rightarrow> nat" where
  "count_label v df = length (filter (\<lambda>r. cell r ''Severity4'' = Num v) (rows df))"

definition count_serious :: "dataframe \<Rightarrow> nat" where
  "count_serious df = length (filter (\<lambda>r. cell r ''Severity'' = Num 4) (rows df))"

definition count_normal :: "dataframe \<Rightarrow> nat" where
  "count_normal df = length (filter (\<lambda>r. cell r ''Severity'' \<noteq> Num 4) (rows df))"

section \<open>Column pruner (source lines 171 to 185)\<close>

text \<open>
  \<^verbatim>\<open>df = df.drop(['ID','Description','Distance(mi)', 'End_Time', 'End_Lat', 'End_Lng'], axis=1)\<close>
  \<^verbatim>\<open>for i in cat_names: print(i, df[i].unique().size)\<close>
  \<^verbatim>\<open>df = df.drop(['Country','Turning_Loop'], axis=1)\<close>

  The loop only prints; what it prints is returned beside the frame.  \<^verbatim>\<open>unique()\<close>
  lists the distinct values of a column, a missing value counting as one of them.
\<close>

definition cat_names :: "string list" where
  "cat_names =
     [''Side'', ''Country'', ''Timezone'', ''Amenity'', ''Bump'', ''Crossing'',
      ''Give_Way'', ''Junction'', ''No_Exit'', ''Railway'', ''Roundabout'', ''Station'',
      ''Stop'', ''Traffic_Calming'', ''Traffic_Signal'', ''Turning_Loop'', ''Sunrise_Sunset'',
      ''Civil_Twilight'', ''Nautical_Twilight'', ''Astronomical_Twilight'']"

definition pruned_first :: "string list" where
  "pruned_first = [''ID'', ''Description'', ''Distance(mi)'', ''End_Time'', ''End_Lat'', ''End_Lng'']"

definition pruned_second :: "string list" where
  "pruned_second = [''Country'', ''Turning_Loop'']"

definition unique_size :: "dataframe \<Rightarrow> string \<Rightarrow> nat" where
  "unique_size df c = length (remdups (map (\<lambda>r. cell r c) (rows df)))"

definition column_pruner :: "dataframe \<Rightarrow> error + (dataframe \<times> (string \<times> nat) list)" where
  "column_pruner df =
     ebind (drop_cols pruned_first df) (\<lambda>df1.
     ebind (require cat_names df1) (\<lambda>df1.
       (let printed = map (\<lambda>i. (i, unique_size df1 i)) cat_names in
        ebind (drop_cols pruned_second df1) (\<lambda>df2. Inr (df2, printed)))))"

section \<open>Categorical normalizer (source lines 193 to 226)\<close>

subsection \<open>Wind direction\<close>

text \<open>A masked assignment whose mask reads the columns \<open>reads\<close>.\<close>

definition assign_where ::
  "string list \<Rightarrow> (row \<Rightarrow> bool) \<Rightarrow> string \<Rightarrow> (row \<Rightarrow> cell) \<Rightarrow> dataframe \<Rightarrow> error + dataframe" where
  "assign_where reads sel c f df = ebind (require reads df) (\<lambda>df. Inr (loc_set sel c f df))"

text \<open>
  \<^verbatim>\<open>df.loc[df['Wind_Direction']=='Calm','Wind_Direction'] = 'CALM'\<close>
  \<^verbatim>\<open>df.loc[(df['Wind_Direction']=='West')|(df['Wind_Direction']=='WSW')|(df['Wind_Direction']=='WNW'),'Wind_Direction'] = 'W'\<close>
  and likewise for \<^verbatim>\<open>'S'\<close>, \<^verbatim>\<open>'N'\<close>, \<^verbatim>\<open>'E'\<close>; last
  \<^verbatim>\<open>df.loc[df['Wind_Direction']=='Variable','Wind_Direction'] = 'VAR'\<close>.
  Comparing a missing value with a string is false, so missing values stay.
\<close>

definition wd :: "row \<Rightarrow> cell" where
  "wd r = cell r ''Wind_Direction''"

definition canonicalize_wind :: "dataframe \<Rightarrow> error + dataframe" where
  "canonicalize_wind df =
     ebind (assign_where [''Wind_Direction''] (\<lambda>r. wd r = Str ''Calm'')
              ''Wind_Direction'' (\<lambda>r. Str ''CALM'') df) (\<lambda>df.
     ebind (assign_where [''Wind_Direction'']
              (\<lambda>r. wd r = Str ''West'' \<or> wd r = Str ''WSW'' \<or> wd r = Str ''WNW'')
              ''Wind_Direction'' (\<lambda>r. Str ''W'') df) (\<lambda>df.
     ebind (assign_where [''Wind_Direction'']
              (\<lambda>r. wd r = Str ''South'' \<or> wd r = Str ''SSW'' \<or> wd r = Str ''SSE'')
              ''Wind_Direction'' (\<lambda>r. Str ''S'') df) (\<lambda>df.
     ebind (assign_where [''Wind_Direction'']
              (\<lambda>r. wd r = Str ''North'' \<or> wd r = Str ''NNW'' \<or> wd r = Str ''NNE'')
              ''Wind_Direction'' (\<lambda>r. Str ''N'') df) (\<lambda>df.
     ebind (assign_where [''Wind_Direction'']
              (\<lambda>r. wd r = Str ''East'' \<or> wd r = Str ''ESE'' \<or> wd r = Str ''ENE'')
              ''Wind_Direction'' (\<lambda>r. Str ''E'') df) (\<lambda>df.
     assign_where [''Wind_Direction''] (\<lambda>r. wd r = Str ''Variable'')
       ''Wind_Direction'' (\<lambda>r. Str ''VAR'') df)))))"

text \<open>The specification's reading of the six statements: one fixed table of exact,
  case-sensitive string equalities, applied at once; a value the table does not cover,
  and a missing value, stays as it is.\<close>

definition spec_wind_table :: "(string \<times> string) list" where
  "spec_wind_table =
     [(''Calm'', ''CALM''),
      (''West'', ''W''), (''WSW'', ''W''), (''WNW'', ''W''),
      (''South'', ''S''), (''SSW'', ''S''), (''SSE'', ''S''),
      (''North'', ''N''), (''NNW'', ''N''), (''NNE'', ''N''),
      (''East'', ''E''), (''ESE'', ''E''), (''ENE'', ''E''),
      (''Variable'', ''VAR'')]"

definition spec_canonical :: "cell \<Rightarrow> cell" where
  "spec_canonical v =
     (case v of
        Str s \<Rightarrow> (case map_of spec_wind_table s of Some t \<Rightarrow> Str t | None \<Rightarrow> v)
      | _ \<Rightarrow> v)"

subsection \<open>Weather indicators\<close>

text \<open>
  \<^verbatim>\<open>Series.str.contains(pat, case=False, na=False)\<close>.  Every pattern of the script is an
  alternation of literal phrases (letters, blanks and a hyphen, separated by \<^verbatim>\<open>|\<close>), so
  the regular expression search is a search for one of the phrases as a contiguous
  substring.  Letter case is compared on the ASCII letters, which is all the patterns
  hold.  A missing cell, and any cell that is not a string, gives \<^verbatim>\<open>na\<close>, here False.
\<close>

fun alternatives_acc :: "string \<Rightarrow> string \<Rightarrow> string list" where
  "alternatives_acc acc [] = [rev acc]"
| "alternatives_acc acc (c # cs) =
     (if c = CHR ''|'' then rev acc # alternatives_acc [] cs
      else alternatives_acc (c # acc) cs)"

definition alternatives :: "string \<Rightarrow> string list" where
  "alternatives pat = alternatives_acc [] pat"

definition lower_char :: "char \<Rightarrow> char" where
  "lower_char c =
     (let n = (of_char c :: nat) in
      if 65 \<le> n \<and> n \<le> 90 then char_of (n + 32) else c)"

definition lower :: "string \<Rightarrow> string" where
  "lower s = map lower_char s"

fun starts_with :: "string \<Rightarrow> string \<Rightarrow> bool" where
  "starts_with s [] = True"
| "starts_with [] (p # ps) = False"
| "starts_with (c # cs) (p # ps) = (c = p \<and> starts_with cs ps)"

fun find_sub :: "string \<Rightarrow> string \<Rightarrow> bool" where
  "find_sub [] p = (p = [])"
| "find_sub (c # cs) p = (starts_with (c # cs) p \<or> find_sub cs p)"

definition str_contains :: "string \<Rightarrow> cell \<Rightarrow> bool" where
  "str_contains pat v =
     (case v of
        Str s \<Rightarrow> list_ex (\<lambda>alt. find_sub (lower s) (lower alt)) (alternatives pat)
      | _ \<Rightarrow> False)"

definition np_where :: "bool \<Rightarrow> cell" where
  "np_where b = (if b then Num 1 else Num 0)"

text \<open>\<^verbatim>\<open>df[name] = np.where(df['Weather_Condition'].str.contains(pat, case=False, na = False), 1, 0)\<close>\<close>

definition indicator_col :: "string \<Rightarrow> string \<Rightarrow> dataframe \<Rightarrow> dataframe" where
  "indicator_col name pat df =
     set_col name (\<lambda>r. np_where (str_contains pat (cell r ''Weather_Condition''))) df"

definition indicator :: "string \<Rightarrow> string \<Rightarrow> dataframe \<Rightarrow> error + dataframe" where
  "indicator name pat df =
     ebind (require [''Weather_Condition''] df) (\<lambda>df. Inr (indicator_col name pat df))"

definition weather :: "string list" where
  "weather = [''Clear'', ''Cloud'', ''Rain'', ''Heavy_Rain'', ''Snow'', ''Heavy_Snow'', ''Fog'']"

fun for_each :: "('a \<Rightarrow> dataframe \<Rightarrow> error + dataframe) \<Rightarrow> 'a list \<Rightarrow> dataframe \<Rightarrow> error + dataframe" where
  "for_each body [] df = Inr df"
| "for_each body (x # xs) df = ebind (body x df) (for_each body xs)"

text \<open>
  \<^verbatim>\<open>for i in weather:\<close>
  \<^verbatim>\<open>    df.loc[df['Weather_Condition'].isnull(),i] = df.loc[df['Weather_Condition'].isnull(),'Weather_Condition']\<close>
\<close>

definition propagate_col :: "string \<Rightarrow> dataframe \<Rightarrow> dataframe" where
  "propagate_col i df =
     loc_set (\<lambda>r. isnull (cell r ''Weather_Condition'')) i (\<lambda>r. cell r ''Weather_Condition'') df"

definition propagate_null :: "string \<Rightarrow> dataframe \<Rightarrow> error + dataframe" where
  "propagate_null i df =
     ebind (require [''Weather_Condition''] df) (\<lambda>df. Inr (propagate_col i df))"

definition weather_indicators :: "dataframe \<Rightarrow> error + dataframe" where
  "weather_indicators df =
     ebind (indicator ''Clear'' ''Clear'' df) (\<lambda>df.
     ebind (indicator ''Cloud'' ''Cloud|Overcast'' df) (\<lambda>df.
     ebind (indicator ''Rain'' ''Rain|storm'' df) (\<lambda>df.
     ebind (indicator ''Heavy_Rain''
              ''Heavy Rain|Rain Shower|Heavy T-Storm|Heavy Thunderstorms'' df) (\<lambda>df.
     ebind (indicator ''Snow'' ''Snow|Sleet|Ice'' df) (\<lambda>df.
     ebind (indicator ''Heavy_Snow''
              ''Heavy Snow|Heavy Sleet|Heavy Ice Pellets|Snow Showers|Squalls'' df) (\<lambda>df.
     ebind (indicator ''Fog'' ''Fog'' df) (\<lambda>df.
     ebind (for_each propagate_null weather df) (\<lambda>df.
     drop_cols [''Weather_Condition''] df))))))))"

definition categorical_normalizer :: "dataframe \<Rightarrow> error + dataframe" where
  "categorical_normalizer df = ebind (canonicalize_wind df) weather_indicators"

section \<open>Temporal feature extractor (source lines 234 to 248)\<close>

text \<open>
  The \<^verbatim>\<open>.dt\<close> accessor exists only on a datetime column, whose cells are timestamps
  or missing; on a missing timestamp every field reads as missing.
\<close>

definition dt_accessor :: "string \<Rightarrow> dataframe \<Rightarrow> error + dataframe" where
  "dt_accessor c df =
     ebind (require [c] df) (\<lambda>df.
       if list_all (\<lambda>r. case cell r c of Time t \<Rightarrow> True | NA \<Rightarrow> True | _ \<Rightarrow> False) (rows df)
       then Inr df else Inl AttributeError)"

definition dt_field :: "(timestamp \<Rightarrow> int) \<Rightarrow> cell \<Rightarrow> cell" where
  "dt_field f v = (case v of Time t \<Rightarrow> Num (of_int (f t)) | _ \<Rightarrow> NA)"

text \<open>\<^verbatim>\<open>Timestamp.weekday()\<close>, Monday 0 to Sunday 6, as pandas computes it.\<close>

definition weekday :: "timestamp \<Rightarrow> int" where
  "weekday t =
     (let y = (if month t < 3 then year t - 1 else year t);
          d = (y + y div 4 - y div 100 + y div 400
                 + [0, 3, 2, 5, 0, 3, 5, 1, 4, 6, 2, 4] ! nat (month t - 1) + day t) mod 7
      in (d + 6) mod 7)"

text \<open>\<^verbatim>\<open>days_each_month = np.cumsum(np.array([0,31,28,31,30,31,30,31,31,30,31,30,31]))\<close>\<close>

fun cumsum_from :: "int \<Rightarrow> int list \<Rightarrow> int list" where
  "cumsum_from acc [] = []"
| "cumsum_from acc (x # xs) = (acc + x) # cumsum_from (acc + x) xs"

definition cumsum :: "int list \<Rightarrow> int list" where
  "cumsum xs = cumsum_from 0 xs"

definition days_each_month :: "int list" where
  "days_each_month = cumsum [0, 31, 28, 31, 30, 31, 30, 31, 31, 30, 31, 30, 31]"

text \<open>Indexing a numpy array: a negative index counts from the end, an index out of
  range raises, and so does an index that is not an integer (the month of a missing
  timestamp).\<close>

definition np_index :: "int list \<Rightarrow> int \<Rightarrow> error + int" where
  "np_index xs i =
     (if 0 \<le> i \<and> i < int (length xs) then Inr (xs ! nat i)
      else if - int (length xs) \<le> i \<and> i < 0 then Inr (xs ! nat (int (length xs) + i))
      else Inl IndexError)"

definition int_arg :: "cell \<Rightarrow> error + int" where
  "int_arg v =
     (case v of
        Num q \<Rightarrow> if q = of_int \<lfloor>q\<rfloor> then Inr \<lfloor>q\<rfloor> else Inl IndexError
      | _ \<Rightarrow> Inl IndexError)"

text \<open>
  \<^verbatim>\<open>nday = [days_each_month[arg-1] for arg in df['Month'].values]\<close>
  \<^verbatim>\<open>nday = nday + df["Start_Time"].dt.day.values\<close>
\<close>

definition nday :: "row \<Rightarrow> error + cell" where
  "nday r =
     ebind (int_arg (cell r ''Month'')) (\<lambda>arg.
     ebind (np_index days_each_month (arg - 1)) (\<lambda>base.
       Inr (case dt_field day (cell r ''Start_Time'') of
              Num d \<Rightarrow> Num (of_int base + d)
            | _ \<Rightarrow> NA)))"

fun map_rows :: "(row \<Rightarrow> error + row) \<Rightarrow> row list \<Rightarrow> error + row list" where
  "map_rows f [] = Inr []"
| "map_rows f (r # rs) =
     ebind (f r) (\<lambda>r'. ebind (map_rows f rs) (\<lambda>rs'. Inr (r' # rs')))"

text \<open>\<^verbatim>\<open>df[c] = values\<close> where computing a value may raise.\<close>

definition set_col_raising :: "string \<Rightarrow> (row \<Rightarrow> error + cell) \<Rightarrow> dataframe \<Rightarrow> error + dataframe" where
  "set_col_raising c f df =
     ebind (map_rows (\<lambda>r. ebind (f r) (\<lambda>v. Inr (AList.update c v r))) (rows df)) (\<lambda>rs.
       Inr \<lparr>columns = (if c \<in> set (columns df) then columns df else columns df @ [c]),
            rows = rs\<rparr>)"

text \<open>
  \<^verbatim>\<open>df = df.drop(["Weather_Timestamp"], axis=1)\<close>
  \<^verbatim>\<open>df['Year'] = df['Start_Time'].dt.year\<close>, and likewise \<^verbatim>\<open>Month\<close> and \<^verbatim>\<open>Weekday\<close>
  \<^verbatim>\<open>df['Day'] = nday\<close>
  \<^verbatim>\<open>df['Hour'] = df['Start_Time'].dt.hour\<close>
  \<^verbatim>\<open>df['Minute']=df['Hour']*60.0+df["Start_Time"].dt.minute\<close>
\<close>

definition minute_of_day :: "row \<Rightarrow> cell" where
  "minute_of_day r =
     (case (cell r ''Hour'', dt_field minute (cell r ''Start_Time'')) of
        (Num h, Num m) \<Rightarrow> Num (h * 60 + m)
      | _ \<Rightarrow> NA)"

definition temporal_feature_extractor :: "dataframe \<Rightarrow> error + dataframe" where
  "temporal_feature_extractor df =
     ebind (drop_cols [''Weather_Timestamp''] df) (\<lambda>df.
     ebind (dt_accessor ''Start_Time'' df) (\<lambda>df.
       (let df = set_col ''Year'' (\<lambda>r. dt_field year (cell r ''Start_Time'')) df;
            df = set_col ''Month'' (\<lambda>r. dt_field month (cell r ''Start_Time'')) df;
            df = set_col ''Weekday'' (\<lambda>r. dt_field weekday (cell r ''Start_Time'')) df
        in
        ebind (set_col_raising ''Day'' nday df) (\<lambda>df.
          (let df = set_col ''Hour'' (\<lambda>r. dt_field hour (cell r ''Start_Time'')) df
           in Inr (set_col ''Minute'' minute_of_day df))))))"

section \<open>Missing-data and duplicate resolver (source lines 263 to 300)\<close>

text \<open>\<^verbatim>\<open>df = df.dropna(subset=[...])\<close>: a row goes when it is missing in any of the
  named columns.\<close>

definition dropna_subset :: "string list" where
  "dropna_subset =
     [''Street'', ''City'', ''Zipcode'', ''Timezone'', ''Airport_Code'', ''Temperature(F)'',
      ''Humidity(%)'', ''Pressure(in)'', ''Visibility(mi)'', ''Wind_Direction'',
      ''Wind_Speed(mph)'', ''Sunrise_Sunset'', ''Civil_Twilight'', ''Nautical_Twilight'',
      ''Astronomical_Twilight'', ''Clear'', ''Cloud'', ''Rain'', ''Heavy_Rain'', ''Snow'',
      ''Heavy_Snow'', ''Fog'']"

definition complete_in :: "string list \<Rightarrow> row \<Rightarrow> bool" where
  "complete_in cs r = list_all (\<lambda>c. \<not> isnull (cell r c)) cs"

definition dropna :: "string list \<Rightarrow> dataframe \<Rightarrow> error + dataframe" where
  "dropna cs df = ebind (require cs df) (\<lambda>df. Inr (select_rows (complete_in cs) df))"

text \<open>
  \<^verbatim>\<open>Series.median()\<close> skips missing values; it is the middle of the sorted values, or
  the mean of the two middle ones, and missing when there is no value at all.  It raises
  on a column that holds anything but numbers.
\<close>

definition median :: "rat list \<Rightarrow> cell" where
  "median xs =
     (let s = sort xs; n = length s in
      if n = 0 then NA
      else if odd n then Num (s ! (n div 2))
      else Num ((s ! (n div 2 - 1) + s ! (n div 2)) / 2))"

fun numbers :: "cell list \<Rightarrow> error + rat list" where
  "numbers [] = Inr []"
| "numbers (NA # vs) = numbers vs"
| "numbers (Num q # vs) = ebind (numbers vs) (\<lambda>qs. Inr (q # qs))"
| "numbers (v # vs) = Inl TypeError"

definition series_median :: "cell list \<Rightarrow> error + cell" where
  "series_median vs = ebind (numbers vs) (\<lambda>qs. Inr (median qs))"

text \<open>\<^verbatim>\<open>Series.fillna(value)\<close>; filling with a missing value changes nothing.\<close>

definition fillna :: "cell \<Rightarrow> cell \<Rightarrow> cell" where
  "fillna m v = (if isnull v then m else v)"

text \<open>\<^verbatim>\<open>df[c] = df[c].fillna(df[c].median())\<close>\<close>

definition fillna_median :: "string \<Rightarrow> dataframe \<Rightarrow> error + dataframe" where
  "fillna_median c df =
     ebind (require [c] df) (\<lambda>df.
     ebind (series_median (map (\<lambda>r. cell r c) (rows df))) (\<lambda>m.
       Inr (set_col c (\<lambda>r. fillna m (cell r c)) df)))"

text \<open>
  \<^verbatim>\<open>df.drop_duplicates(keep='first', inplace=True)\<close>: two rows are duplicates when they
  agree in every column (two missing values agree); the first of them stays.
  \<^verbatim>\<open>df.reset_index(drop=True, inplace=True)\<close> only renumbers the index.
\<close>

fun keep_first :: "('a \<Rightarrow> 'k) \<Rightarrow> 'k list \<Rightarrow> 'a list \<Rightarrow> 'a list" where
  "keep_first key seen [] = []"
| "keep_first key seen (x # xs) =
     (if key x \<in> set seen then keep_first key seen xs
      else x # keep_first key (key x # seen) xs)"

definition row_values :: "dataframe \<Rightarrow> row \<Rightarrow> cell list" where
  "row_values df r = map (cell r) (columns df)"

definition drop_duplicates :: "dataframe \<Rightarrow> dataframe" where
  "drop_duplicates df = \<lparr>columns = columns df, rows = keep_first (row_values df) [] (rows df)\<rparr>"

text \<open>Source lines 274 to 300: row deletion, imputation, de-duplication.\<close>

definition resolve_rows :: "dataframe \<Rightarrow> error + dataframe" where
  "resolve_rows df =
     ebind (dropna dropna_subset df) (\<lambda>df.
     ebind (fillna_median ''Precipitation(in)'' df) (\<lambda>df.
     ebind (fillna_median ''Wind_Chill(F)'' df) (\<lambda>df.
       Inr (drop_duplicates df))))"

text \<open>Source lines 263 to 300: \<^verbatim>\<open>df = df.drop(['Number'], axis=1)\<close>, then the above.\<close>

definition resolver :: "dataframe \<Rightarrow> error + dataframe" where
  "resolver df = ebind (drop_cols [''Number''] df) resolve_rows"

text \<open>What the stage is to guarantee, as predicates on a frame.\<close>

definition no_nulls :: "dataframe \<Rightarrow> bool" where
  "no_nulls df = list_all (complete_in (columns df)) (rows df)"

definition no_duplicates :: "dataframe \<Rightarrow> bool" where
  "no_duplicates df = distinct (map (row_values df) (rows df))"

section \<open>Example frames\<close>

definition severity_frame :: dataframe where
  "severity_frame =
     \<lparr>columns = [''State'', ''Severity''],
      rows = [[(''State'', Str ''OH''), (''Severity'', Num 2)],
              [(''State'', Str ''CA''), (''Severity'', Num 4)],
              [(''State'', Str ''TX''), (''Severity'', Num 3)]]\<rparr>"

definition severity_out :: dataframe where
  "severity_out =
     \<lparr>columns = [''State'', ''Severity4''],
      rows = [[(''State'', Str ''OH''), (''Severity4'', Num 0)],
              [(''State'', Str ''TX''), (''Severity4'', Num 0)],
              [(''State'', Str ''CA''), (''Severity4'', Num 1)]]\<rparr>"

definition severity_bin :: dataframe where
  "severity_bin =
     \<lparr>columns = [''State'', ''Severity4''],
      rows = [[(''State'', Str ''OH''), (''Severity4'', Num 0)],
              [(''State'', Str ''CA''), (''Severity4'', Num 1)],
              [(''State'', Str ''TX''), (''Severity4'', Num 0)]]\<rparr>"

section \<open>Proofs\<close>

lemma ebind_Inr [simp]: "ebind (Inr x) f = f x"
  by (simp add: ebind_def)

lemma ebind_Inl [simp]: "ebind (Inl e) f = Inl e"
  by (simp add: ebind_def)

lemma ebind_eq_Inr: "ebind m f = Inr y \<longleftrightarrow> (\<exists>x. m = Inr x \<and> f x = Inr y)"
  by (cases m) simp_all

lemma cell_update [simp]: "cell (AList.update k v r) c = (if c = k then v else cell r c)"
  by (simp add: cell_def update_conv')

lemma map_of_drop_row: "map_of (drop_row cs r) c = (if c \<in> set cs then None else map_of r c)"
  by (induction r) (auto simp: drop_row_def)

lemma cell_drop_row [simp]: "cell (drop_row cs r) c = (if c \<in> set cs then NA else cell r c)"
  by (simp add: cell_def map_of_drop_row)

lemma require_ok: "set cs \<subseteq> set (columns df) \<Longrightarrow> require cs df = Inr df"
proof -
  assume "set cs \<subseteq> set (columns df)"
  then have "filter (\<lambda>c. c \<notin> set (columns df)) cs = []"
    by (auto simp: filter_empty_conv)
  then show ?thesis by (simp add: require_def)
qed

lemma require_eq_Inr: "require cs df = Inr df' \<longleftrightarrow> set cs \<subseteq> set (columns df) \<and> df' = df"
proof (cases "filter (\<lambda>c. c \<notin> set (columns df)) cs")
  case Nil
  then have "set cs \<subseteq> set (columns df)" by (auto simp: filter_empty_conv)
  with Nil show ?thesis by (auto simp: require_def)
next
  case (Cons a as)
  then have "a \<in> set (filter (\<lambda>c. c \<notin> set (columns df)) cs)" by simp
  then have "\<not> set cs \<subseteq> set (columns df)" by auto
  with Cons show ?thesis by (simp add: require_def)
qed

lemma columns_set_col [simp]: "set (columns (set_col k f df)) = insert k (set (columns df))"
  by (auto simp: set_col_def)

lemma rows_set_col [simp]: "rows (set_col k f df) = map (\<lambda>r. AList.update k (f r) r) (rows df)"
  by (simp add: set_col_def)

lemma columns_loc_set [simp]: "set (columns (loc_set sel k f df)) = insert k (set (columns df))"
  by (auto simp: loc_set_def)

lemma rows_loc_set [simp]:
  "rows (loc_set sel k f df) = map (\<lambda>r. if sel r then AList.update k (f r) r else r) (rows df)"
  by (simp add: loc_set_def)

lemma drop_cols_ok:
  "set cs \<subseteq> set (columns df) \<Longrightarrow>
   drop_cols cs df = Inr \<lparr>columns = filter (\<lambda>c. c \<notin> set cs) (columns df),
                          rows = map (drop_row cs) (rows df)\<rparr>"
  by (simp add: drop_cols_def require_ok)

lemma drop_cols_eq_Inr:
  "drop_cols cs df = Inr df' \<longleftrightarrow>
   set cs \<subseteq> set (columns df) \<and>
   df' = \<lparr>columns = filter (\<lambda>c. c \<notin> set cs) (columns df), rows = map (drop_row cs) (rows df)\<rparr>"
  by (auto simp: drop_cols_def ebind_eq_Inr require_eq_Inr)

lemma binarize_ok:
  assumes "''Severity'' \<in> set (columns df)"
  shows "binarize df =
     Inr \<lparr>columns = filter (\<lambda>c. c \<notin> set [''Severity''])
                       (columns (loc_set (\<lambda>r. cell r ''Severity'' = Num 4) ''Severity4'' (\<lambda>r. Num 1)
                          (set_col ''Severity4'' (\<lambda>r. Num 0) df))),
          rows = map (drop_row [''Severity''])
                   (rows (loc_set (\<lambda>r. cell r ''Severity'' = Num 4) ''Severity4'' (\<lambda>r. Num 1)
                          (set_col ''Severity4'' (\<lambda>r. Num 0) df)))\<rparr>"
  using assms by (simp add: binarize_def Let_def require_ok drop_cols_ok)

lemma binarize_label:
  assumes "binarize df = Inr df'" and "i < length (rows df)"
  shows "cell (rows df' ! i) ''Severity4'' = (if cell (rows df ! i) ''Severity'' = Num 4 then Num 1 else Num 0)"
    and "cell (rows df' ! i) ''Severity'' = NA"
    and "map_of (rows df' ! i) ''Severity'' = None"
proof -
  from assms(1) have c: "''Severity'' \<in> set (columns df)"
    by (auto simp: binarize_def Let_def ebind_eq_Inr require_eq_Inr)
  from binarize_ok [OF c] assms(1)
  have r: "rows df' = map (drop_row [''Severity''])
                   (rows (loc_set (\<lambda>r. cell r ''Severity'' = Num 4) ''Severity4'' (\<lambda>r. Num 1)
                          (set_col ''Severity4'' (\<lambda>r. Num 0) df)))"
    by auto
  show "cell (rows df' ! i) ''Severity4'' = (if cell (rows df ! i) ''Severity'' = Num 4 then Num 1 else Num 0)"
    using assms(2) by (simp add: r)
  show "cell (rows df' ! i) ''Severity'' = NA"
    using assms(2) by (simp add: r)
  show "map_of (rows df' ! i) ''Severity'' = None"
    using assms(2) by (simp add: r map_of_drop_row)
qed

text \<open>
  Claim C9.  On every frame that has a \<^verbatim>\<open>Severity\<close> column the target binarizer
  returns; in its result every row carries \<^verbatim>\<open>Severity4 = 1\<close> when its original
  \<^verbatim>\<open>Severity\<close> was 4 and \<^verbatim>\<open>Severity4 = 0\<close> otherwise (so for severities 1, 2
  and 3), and the original \<^verbatim>\<open>Severity\<close> column is gone: it is no column of the
  frame and no row carries it.
\<close>

theorem binarizer_label:
  assumes "''Severity'' \<in> set (columns df)"
  shows "\<exists>df'. binarize df = Inr df' \<and>
           ''Severity'' \<notin> set (columns df') \<and> ''Severity4'' \<in> set (columns df') \<and>
           length (rows df') = length (rows df) \<and>
           (\<forall>i < length (rows df).
               cell (rows df' ! i) ''Severity4'' =
                 (if cell (rows df ! i) ''Severity'' = Num 4 then Num 1 else Num 0) \<and>
               map_of (rows df' ! i) ''Severity'' = None)"
proof -
  obtain df' where b: "binarize df = Inr df'"
    using binarize_ok [OF assms] by blast
  have cols: "''Severity'' \<notin> set (columns df')" "''Severity4'' \<in> set (columns df')"
    and len: "length (rows df') = length (rows df)"
    using b binarize_ok [OF assms] by auto
  show ?thesis
    using b cols len binarize_label [OF b] by blast
qed

lemma balance_ok:
  assumes "''Severity4'' \<in> set (columns df)"
  shows "balance df = Inr (concat_frames
           (head_rows cap (select_rows (\<lambda>r. cell r ''Severity4'' = Num 0) df))
           (head_rows cap (select_rows (\<lambda>r. cell r ''Severity4'' = Num 1) df)))"
  using assms by (simp add: balance_def require_ok Let_def)

lemma filter_take_filter_same: "filter P (take n (filter P xs)) = take n (filter P xs)"
proof -
  have "\<forall>x \<in> set (take n (filter P xs)). P x"
    by (auto dest: in_set_takeD)
  then show ?thesis by (rule iffD2 [OF filter_id_conv])
qed

lemma filter_take_filter_other:
  assumes "\<And>x. Q x \<Longrightarrow> \<not> P x"
  shows "filter P (take n (filter Q xs)) = []"
proof -
  have "\<forall>x \<in> set (take n (filter Q xs)). \<not> P x"
    using assms by (auto dest!: in_set_takeD)
  then show ?thesis by (rule iffD2 [OF filter_empty_conv])
qed

lemma count_label_balance:
  assumes "balance df = Inr df'"
  shows "count_label 0 df' = min (count_label 0 df) cap"
    and "count_label 1 df' = min (count_label 1 df) cap"
proof -
  from assms have c: "''Severity4'' \<in> set (columns df)"
    by (auto simp: balance_def ebind_eq_Inr require_eq_Inr)
  have r: "rows df' = take cap (filter (\<lambda>r. cell r ''Severity4'' = Num 0) (rows df)) @
                      take cap (filter (\<lambda>r. cell r ''Severity4'' = Num 1) (rows df))"
    using balance_ok [OF c] assms
    by (auto simp: concat_frames_def head_rows_def select_rows_def)
  have z: "filter (\<lambda>r. cell r ''Severity4'' = Num 0)
             (take cap (filter (\<lambda>r. cell r ''Severity4'' = Num 1) (rows df))) = []"
    by (rule filter_take_filter_other) simp
  have o: "filter (\<lambda>r. cell r ''Severity4'' = Num 1)
             (take cap (filter (\<lambda>r. cell r ''Severity4'' = Num 0) (rows df))) = []"
    by (rule filter_take_filter_other) simp
  show "count_label 0 df' = min (count_label 0 df) cap"
    by (simp add: count_label_def r filter_take_filter_same z)
  show "count_label 1 df' = min (count_label 1 df) cap"
    by (simp add: count_label_def r filter_take_filter_same o)
qed

lemma count_label_binarize:
  assumes "binarize df = Inr df'"
  shows "count_label 0 df' = count_normal df" and "count_label 1 df' = count_serious df"
proof -
  from assms have c: "''Severity'' \<in> set (columns df)"
    by (auto simp: binarize_def Let_def ebind_eq_Inr require_eq_Inr)
  from binarize_ok [OF c] assms
  have r: "rows df' = map (drop_row [''Severity''])
                   (rows (loc_set (\<lambda>r. cell r ''Severity'' = Num 4) ''Severity4'' (\<lambda>r. Num 1)
                          (set_col ''Severity4'' (\<lambda>r. Num 0) df)))"
    by auto
  show "count_label 0 df' = count_normal df"
    by (simp add: count_label_def count_normal_def r filter_map o_def)
  show "count_label 1 df' = count_serious df"
    by (simp add: count_label_def count_serious_def r filter_map o_def)
qed

text \<open>
  Claim C1, as the code has it.  On every frame that has a \<^verbatim>\<open>Severity\<close> column the
  binarizer and balancer returns, and each class is cut to the cap on its own: the
  output holds \<open>min (count of class 0 in the input) 110000\<close> rows of class 0 and
  \<open>min (count of class 1 in the input) 110000\<close> rows of class 1.  The two counts are
  therefore equal exactly when these two minima are equal, as when both classes have at
  least 110000 rows; a class with fewer rows than the cap does not shorten the other.
\<close>

theorem balanced_counts:
  assumes "''Severity'' \<in> set (columns df)"
  shows "\<exists>df'. binarize_and_balance df = Inr df' \<and>
           count_label 0 df' = min (count_normal df) cap \<and>
           count_label 1 df' = min (count_serious df) cap \<and>
           ((count_label 0 df' = count_label 1 df') =
            (min (count_normal df) cap = min (count_serious df) cap))"
proof -
  obtain df1 where b: "binarize df = Inr df1"
    using binarize_ok [OF assms] by blast
  have "''Severity4'' \<in> set (columns df1)"
    using b binarize_ok [OF assms] by auto
  then obtain df' where bl: "balance df1 = Inr df'"
    using balance_ok by blast
  have "binarize_and_balance df = Inr df'"
    by (simp add: binarize_and_balance_def b bl)
  moreover have "count_label 0 df' = min (count_normal df) cap"
    using count_label_balance(1) [OF bl] count_label_binarize(1) [OF b] by simp
  moreover have "count_label 1 df' = min (count_serious df) cap"
    using count_label_balance(2) [OF bl] count_label_binarize(2) [OF b] by simp
  ultimately show ?thesis by simp
qed

lemma severity_frame_binarize: "binarize severity_frame = Inr severity_bin"
  by (simp add: severity_frame_def severity_bin_def binarize_def Let_def require_def
        set_col_def loc_set_def drop_cols_def drop_row_def cell_def)

lemma severity_bin_balance: "balance severity_bin = Inr severity_out"
  by (simp add: severity_bin_def severity_out_def balance_def Let_def require_def
        select_rows_def head_rows_def concat_frames_def cell_def cap_def)

lemma severity_frame_balance: "binarize_and_balance severity_frame = Inr severity_out"
  by (simp add: binarize_and_balance_def severity_frame_binarize severity_bin_balance)

lemma severity_counts:
  "count_normal severity_frame = 2" "count_serious severity_frame = 1"
  "count_label 0 severity_out = 2" "count_label 1 severity_out = 1"
  by (simp_all add: severity_frame_def severity_out_def count_normal_def count_serious_def
        count_label_def cell_def)

text \<open>
  Claim C1 as stated fails: with two rows of class 0 and one of class 1 in the input the
  output has two rows of class 0 and one of class 1, so the counts differ, and the count
  of class 0 is not \<open>min (2, 1, 110000)\<close>.
\<close>

theorem balanced_counts_counterexample:
  "binarize_and_balance severity_frame = Inr severity_out \<and>
   count_label 0 severity_out \<noteq> count_label 1 severity_out \<and>
   count_label 0 severity_out \<noteq> min (min (count_normal severity_frame) (count_serious severity_frame)) 110000"
  by (simp add: severity_frame_balance severity_counts)

text \<open>
  Claim C1 (as the code has it), at the same concrete frame.
\<close>

theorem balanced_counts_witness:
  "''Severity'' \<in> set (columns severity_frame) \<and>
   (\<exists>df'. binarize_and_balance severity_frame = Inr df' \<and>
      count_label 0 df' = 2 \<and> count_label 1 df' = 1)"
proof -
  have h: "''Severity'' \<in> set (columns severity_frame)"
    by (simp add: severity_frame_def)
  have m: "min (count_normal severity_frame) cap = 2" "min (count_serious severity_frame) cap = 1"
    by (simp_all add: severity_counts cap_def)
  from balanced_counts [OF h] obtain df' where
    "binarize_and_balance severity_frame = Inr df'"
    "count_label 0 df' = min (count_normal severity_frame) cap"
    "count_label 1 df' = min (count_serious severity_frame) cap"
    by blast
  with m h show ?thesis by auto
qed

lemma sev_rows:
  "length (rows severity_frame) = 3"
  "cell (rows severity_frame ! 0) ''Severity'' = Num 2"
  "cell (rows severity_frame ! 1) ''Severity'' = Num 4"
  by (simp_all add: severity_frame_def cell_def)

text \<open>
  Claim C9, at a concrete frame: severities 2, 4, 3 give the labels 0, 1, 0.
\<close>

theorem binarizer_label_witness:
  "''Severity'' \<in> set (columns severity_frame) \<and>
   (\<exists>df'. binarize severity_frame = Inr df' \<and>
      cell (rows df' ! 0) ''Severity4'' = Num 0 \<and>
      cell (rows df' ! 1) ''Severity4'' = Num 1 \<and>
      map_of (rows df' ! 1) ''Severity'' = None)"
proof -
  have h: "''Severity'' \<in> set (columns severity_frame)"
    by (simp add: severity_frame_def)
  from binarizer_label [OF h] obtain df' where
    b: "binarize severity_frame = Inr df'" and
    l: "\<forall>i < length (rows severity_frame).
          cell (rows df' ! i) ''Severity4'' =
            (if cell (rows severity_frame ! i) ''Severity'' = Num 4 then Num 1 else Num 0) \<and>
          map_of (rows df' ! i) ''Severity'' = None"
    by blast
  have a0: "0 < length (rows severity_frame)" and a1: "1 < length (rows severity_frame)"
    by (simp_all add: sev_rows)
  have n: "Num 2 \<noteq> Num 4" by simp
  have "cell (rows df' ! 0) ''Severity4'' = Num 0"
    using l [rule_format, OF a0] by (simp only: sev_rows n if_False)
  moreover have "cell (rows df' ! 1) ''Severity4'' = Num 1"
    using l [rule_format, OF a1] by (simp only: sev_rows simp_thms if_True)
  moreover have "map_of (rows df' ! 1) ''Severity'' = None"
    using l [rule_format, OF a1] by (rule conjunct2)
  ultimately have "cell (rows df' ! 0) ''Severity4'' = Num 0 \<and>
      cell (rows df' ! 1) ''Severity4'' = Num 1 \<and>
      map_of (rows df' ! 1) ''Severity'' = None" by blast
  with h b show ?thesis by blast
qed

end
